theory Spec2Isabelle
  imports Main "HOL-Library.Word"
begin

unbundle bit_operations_syntax

section \<open>The compiler service, as the extractor sees it\<close>

text \<open>
  The extractor (\<^verbatim>\<open>docs.ts\<close>) walks syntax trees built by the TypeScript compiler and
  asks its type checker for symbols and types. The compiler is not part of the
  repository: the trees, symbols and types below are the data it hands over, and the
  checker is a parameter of every function that the source passes it to.
\<close>

datatype SyntaxKind =
    ArrowFunction | ClassDeclaration | FunctionDeclaration | MethodDeclaration
  | ModuleDeclaration | VariableStatement
  | ModuleBlock | PropertyDeclaration | Identifier | ExportKeyword | PublicKeyword
  | EndOfFileToken | OtherKind

text \<open>Where the source only passes a reference to a node on to the checker
  (\<^verbatim>\<open>node.name\<close>, \<^verbatim>\<open>symbol.valueDeclaration\<close>), the node is referred to by a number that
  identifies the node object.\<close>

type_synonym NodeRef = nat

record SymbolDisplayPart =
  part_text :: string
  part_kind :: string

record JSDocTagInfo =
  tag_name :: string
  tag_text :: "SymbolDisplayPart list option"

text \<open>\<^verbatim>\<open>symbol.getName()\<close>, \<^verbatim>\<open>symbol.getDocumentationComment(checker)\<close>,
  \<^verbatim>\<open>symbol.valueDeclaration\<close> (which may be undefined) and \<^verbatim>\<open>symbol.getJsDocTags()\<close>.\<close>

record Symbol =
  getName :: string
  getDocumentationComment :: "SymbolDisplayPart list"
  valueDeclaration :: "NodeRef option"
  getJsDocTags :: "JSDocTagInfo list"

text \<open>A type with what the source reads from it: its printed form
  (\<^verbatim>\<open>checker.typeToString\<close>) and its construct signatures; a signature with its parameters,
  return type and documentation comment.\<close>

datatype Type = Type (typeToString: string) (getConstructSignatures: "Signature list")
and Signature =
  Signature (sig_parameters: "Symbol list") (getReturnType: Type)
    (sig_getDocumentationComment: "SymbolDisplayPart list")

text \<open>\<^verbatim>\<open>declarationList.declarations[i]\<close> of a variable statement, with the \<^verbatim>\<open>symbol\<close>
  property the source reads from it directly (it may be undefined).\<close>

record VariableDeclaration =
  decl_symbol :: "Symbol option"

text \<open>
  A node carries: its kind; its own reference; the value of
  \<^verbatim>\<open>getCombinedModifierFlags(node)\<close>; its \<^verbatim>\<open>name\<close> property; \<^verbatim>\<open>node.parent.name\<close> (the tree has
  no back pointers, so the one property the source reads through \<^verbatim>\<open>parent\<close> is kept on
  the node); the declarations of its declaration list (read for variable statements
  only); and its children in the order in which \<^verbatim>\<open>forEachChild\<close> enumerates them.
\<close>

datatype Node =
  Node (kind: SyntaxKind) (self: NodeRef) (getCombinedModifierFlags: "32 word")
    (node_name: "NodeRef option") (parent_name: "NodeRef option")
    (declarations: "VariableDeclaration list") (children: "Node list")

text \<open>A fault is what JavaScript would throw: a \<^verbatim>\<open>TypeError\<close> on reading a property of
  \<^verbatim>\<open>undefined\<close>, or an error raised inside the checker.\<close>

datatype fault = TypeError | CheckerError

text \<open>The two checker calls of the source that take a location. \<^verbatim>\<open>getSymbolAtLocation\<close>
  receives whatever the call site passes, \<^verbatim>\<open>undefined\<close> included, and may find no symbol;
  \<^verbatim>\<open>getTypeOfSymbolAtLocation\<close> receives the symbol and its \<^verbatim>\<open>valueDeclaration\<close>, which
  the source asserts (\<^verbatim>\<open>!\<close>) but does not test, and may fail.\<close>

record TypeChecker =
  getSymbolAtLocation :: "NodeRef option \<Rightarrow> Symbol option"
  getTypeOfSymbolAtLocation :: "Symbol \<Rightarrow> NodeRef option \<Rightarrow> fault + Type"

record SourceFile =
  sf_fileName :: string
  isDeclarationFile :: bool
  sf_children :: "Node list"

text \<open>The result of \<^verbatim>\<open>createProgram(fileNames, options)\<close>.\<close>

record Program =
  getSourceFiles :: "SourceFile list"
  getTypeChecker :: TypeChecker

text \<open>\<^verbatim>\<open>ModifierFlags.Export\<close> and \<^verbatim>\<open>ModifierFlags.Public\<close> are two single-bit masks of the
  compiler's enumeration (here with the values of TypeScript 4).\<close>

definition ModifierFlags_Export :: "32 word" where
  "ModifierFlags_Export = 1"

definition ModifierFlags_Public :: "32 word" where
  "ModifierFlags_Public = 4"

definition displayPartsToString :: "SymbolDisplayPart list \<Rightarrow> string" where
  "displayPartsToString parts = concat (map part_text parts)"

section \<open>The documentation record\<close>

text \<open>
  \<^verbatim>\<open>DocEntry\<close>: \<^verbatim>\<open>name\<close> is required, every other property is optional (\<open>None\<close> is an
  absent property). \<^verbatim>\<open>doc_type\<close> is the property the renderer reads; the extractor never
  writes it. The elements of \<^verbatim>\<open>constructors\<close> hold \<^verbatim>\<open>parameters\<close>, \<^verbatim>\<open>returnType\<close> and
  \<^verbatim>\<open>documentation\<close> only.
\<close>

datatype DocEntry =
  DocEntry (name: string) (fileName: "string option") (documentation: "string option")
    (type: "string option") (constructors: "SignatureEntry list option")
    (parameters: "DocEntry list option") (methods: "DocEntry list option")
    (returnType: "string option") (jsDocs: "JSDocTagInfo list option")
    (doc_type: "string option")
and SignatureEntry =
  SignatureEntry (ctor_parameters: "DocEntry list option") (ctor_returnType: "string option")
    (ctor_documentation: "string option")

text \<open>Object spread with one property replaced: \<^verbatim>\<open>{...entry, fileName: f}\<close>,
  \<^verbatim>\<open>{...entry, methods: ms}\<close> and the assignment \<^verbatim>\<open>details.constructors = cs\<close>.\<close>

fun set_fileName :: "string \<Rightarrow> DocEntry \<Rightarrow> DocEntry" where
  "set_fileName f (DocEntry n _ d t c p m r j k) = DocEntry n (Some f) d t c p m r j k"

fun set_methods :: "DocEntry list \<Rightarrow> DocEntry \<Rightarrow> DocEntry" where
  "set_methods ms (DocEntry n f d t c p _ r j k) = DocEntry n f d t c p (Some ms) r j k"

fun set_constructors :: "SignatureEntry list \<Rightarrow> DocEntry \<Rightarrow> DocEntry" where
  "set_constructors cs (DocEntry n f d t _ p m r j k) = DocEntry n f d t (Some cs) p m r j k"

section \<open>The extractor\<close>

text \<open>Running fallible steps in order: the first fault ends the run, as a thrown error
  that nothing catches does.\<close>

fun sequence :: "(fault + 'a) list \<Rightarrow> fault + 'a list" where
  "sequence [] = Inr []"
| "sequence (r # rs) =
     (case r of Inl e \<Rightarrow> Inl e
      | Inr x \<Rightarrow> (case sequence rs of Inl e \<Rightarrow> Inl e | Inr xs \<Rightarrow> Inr (x # xs)))"

text \<open>A callback that pushes all the records of each call onto one array
  (\<^verbatim>\<open>entries.push(...docEntries)\<close>), over the calls in order.\<close>

definition pushAll :: "(fault + 'a list) list \<Rightarrow> fault + 'a list" where
  "pushAll rs = (case sequence rs of Inl e \<Rightarrow> Inl e | Inr xss \<Rightarrow> Inr (concat xss))"

definition serializeSymbol :: "TypeChecker \<Rightarrow> Symbol \<Rightarrow> fault + DocEntry" where
  "serializeSymbol checker symbol =
     (case getTypeOfSymbolAtLocation checker symbol (valueDeclaration symbol) of
        Inl e \<Rightarrow> Inl e
      | Inr ty \<Rightarrow>
          Inr (DocEntry (getName symbol) None
                 (Some (displayPartsToString (getDocumentationComment symbol)))
                 (Some (typeToString ty)) None None None None
                 (Some (getJsDocTags symbol)) None))"

definition serializeSignature :: "TypeChecker \<Rightarrow> Signature \<Rightarrow> fault + SignatureEntry" where
  "serializeSignature checker signature =
     (case sequence (map (serializeSymbol checker) (sig_parameters signature)) of
        Inl e \<Rightarrow> Inl e
      | Inr ps \<Rightarrow>
          Inr (SignatureEntry (Some ps)
                 (Some (typeToString (getReturnType signature)))
                 (Some (displayPartsToString (sig_getDocumentationComment signature)))))"

definition serializeClass :: "TypeChecker \<Rightarrow> Symbol \<Rightarrow> fault + DocEntry" where
  "serializeClass checker symbol =
     (case serializeSymbol checker symbol of
        Inl e \<Rightarrow> Inl e
      | Inr details \<Rightarrow>
          (case getTypeOfSymbolAtLocation checker symbol (valueDeclaration symbol) of
             Inl e \<Rightarrow> Inl e
           | Inr constructorType \<Rightarrow>
               (case sequence (map (serializeSignature checker)
                                (getConstructSignatures constructorType)) of
                  Inl e \<Rightarrow> Inl e
                | Inr cs \<Rightarrow> Inr (set_constructors cs details))))"

definition isNodeExportedOrPublic :: "Node \<Rightarrow> bool" where
  "isNodeExportedOrPublic node =
     (let flags = getCombinedModifierFlags node
      in flags AND ModifierFlags_Export \<noteq> 0 \<or> flags AND ModifierFlags_Public \<noteq> 0)"

text \<open>\<^verbatim>\<open>forEachChild(node, cb)\<close> returns the first truthy result of the callback, and a node
  is truthy: the first arrow function in depth-first order, the node itself included.\<close>

fun firstDefined :: "'a option list \<Rightarrow> 'a option" where
  "firstDefined [] = None"
| "firstDefined (None # rs) = firstDefined rs"
| "firstDefined (Some x # rs) = Some x"

fun findDescendantArrowFunction :: "Node \<Rightarrow> Node option" where
  "findDescendantArrowFunction (Node k p fl nm pn ds cs) =
     (if k = ArrowFunction then Some (Node k p fl nm pn ds cs)
      else firstDefined (map findDescendantArrowFunction cs))"

text \<open>\<^verbatim>\<open>addDocEntry\<close>: nothing is pushed for an undefined symbol.\<close>

definition addDocEntry :: "TypeChecker \<Rightarrow> Symbol option \<Rightarrow> fault + DocEntry list" where
  "addDocEntry checker symbol =
     (case symbol of
        None \<Rightarrow> Inr []
      | Some s \<Rightarrow> (case serializeSymbol checker s of Inl e \<Rightarrow> Inl e | Inr details \<Rightarrow> Inr [details]))"

text \<open>\<^verbatim>\<open>visit\<close>. The branches are tried in the order of the source; the result is the
  array \<^verbatim>\<open>entries\<close> at the \<^verbatim>\<open>return\<close>, or the fault that ended the call.\<close>

fun visit :: "TypeChecker \<Rightarrow> Node \<Rightarrow> fault + DocEntry list" where
  "visit checker (Node k p fl nm pn ds cs) =
     (let node = Node k p fl nm pn ds cs in
      if \<not> isNodeExportedOrPublic node then Inr []
      else if k = ClassDeclaration \<and> nm \<noteq> None then
        (case getSymbolAtLocation checker nm of
           None \<Rightarrow> Inr []
         | Some symbol \<Rightarrow>
             (case serializeClass checker symbol of
                Inl e \<Rightarrow> Inl e
              | Inr classEntry \<Rightarrow>
                  (case pushAll (map (visit checker) cs) of
                     Inl e \<Rightarrow> Inl e
                   | Inr ms \<Rightarrow> Inr [set_methods ms classEntry])))
      else if k = ModuleDeclaration then pushAll (map (visit checker) cs)
      else if k = MethodDeclaration then addDocEntry checker (getSymbolAtLocation checker nm)
      else if k = FunctionDeclaration then
        addDocEntry checker
          (getSymbolAtLocation checker (case nm of None \<Rightarrow> Some p | Some n \<Rightarrow> Some n))
      else if k = VariableStatement then
        (case ds of
           [] \<Rightarrow> Inl TypeError
         | d # _ \<Rightarrow> addDocEntry checker (decl_symbol d))
      else
        (case findDescendantArrowFunction node of
           None \<Rightarrow> Inr []
         | Some arrowFunc \<Rightarrow>
             addDocEntry checker (getSymbolAtLocation checker (parent_name arrowFunc))))"

text \<open>\<^verbatim>\<open>generateDocumentation\<close>: per source file that is not a declaration file, per child
  of the file, the records of \<^verbatim>\<open>visit\<close> with the file's name set, pushed onto one result;
  \<^verbatim>\<open>createProgram\<close> is the compiler's.\<close>

definition visitSourceFile :: "TypeChecker \<Rightarrow> SourceFile \<Rightarrow> fault + DocEntry list" where
  "visitSourceFile checker sourceFile =
     pushAll (map (\<lambda>node. (case visit checker node of
                              Inl e \<Rightarrow> Inl e
                            | Inr entries \<Rightarrow> Inr (map (set_fileName (sf_fileName sourceFile)) entries)))
                (sf_children sourceFile))"

definition generateDocumentation ::
  "(string list \<Rightarrow> 'options \<Rightarrow> Program) \<Rightarrow> string list \<Rightarrow> 'options \<Rightarrow> fault + DocEntry list" where
  "generateDocumentation createProgram fileNames options =
     (let program = createProgram fileNames options;
          checker = getTypeChecker program;
          sourceFiles = filter (\<lambda>f. \<not> isDeclarationFile f) (getSourceFiles program)
      in pushAll (map (visitSourceFile checker) sourceFiles))"

section \<open>The renderer\<close>

text \<open>\<^verbatim>\<open>Array.prototype.join\<close> on an array of strings.\<close>

fun join :: "string \<Rightarrow> string list \<Rightarrow> string" where
  "join sep [] = []"
| "join sep [x] = x"
| "join sep (x # y # ys) = x @ sep @ join sep (y # ys)"

text \<open>\<^verbatim>\<open>v ?? d\<close>, and an optional string inside a template literal (an absent one prints as
  \<^verbatim>\<open>undefined\<close>).\<close>

definition nullish :: "'a option \<Rightarrow> 'a \<Rightarrow> 'a" where
  "nullish v d = (case v of None \<Rightarrow> d | Some x \<Rightarrow> x)"

definition interpolate :: "string option \<Rightarrow> string" where
  "interpolate v = (case v of None \<Rightarrow> ''undefined'' | Some s \<Rightarrow> s)"

record Param =
  param_name :: string
  param_documentation :: string

record Row =
  row_name :: string
  row_type :: string
  row_documentation :: string
  row_params :: "Param list"

definition toRow :: "DocEntry \<Rightarrow> Row" where
  "toRow entry =
     \<lparr>row_name = name entry,
      row_type = nullish (type entry) [],
      row_documentation = nullish (documentation entry) [],
      row_params =
        map (\<lambda>p. \<lparr>param_name = name p, param_documentation = nullish (documentation p) []\<rparr>)
          (nullish (parameters entry) [])\<rparr>"

text \<open>\<^verbatim>\<open>rowToMarkdown\<close>: the array \<^verbatim>\<open>markdown\<close> after each \<^verbatim>\<open>push\<close>, then joined.\<close>

definition rowToMarkdown :: "Row \<Rightarrow> string" where
  "rowToMarkdown row =
     (let markdown = [''## '' @ row_name row @ ''\<newline>''];
          markdown = (if length (row_documentation row) \<noteq> 0
                      then markdown @ [row_documentation row @ ''\<newline>'']
                      else markdown);
          markdown = markdown @ [''| Name | Type |''];
          markdown = markdown @ [''| ---------- | ---------- |''];
          markdown = markdown @
            [''| `'' @ row_name row @ ''` | `'' @ row_type row @ ''` |\<newline>''];
          markdown = (if length (row_params row) \<noteq> 0
                      then (markdown @ [''Parameters:'']) @
                           map (\<lambda>p. ''* `'' @ param_name p @ ''`: '' @ param_documentation p)
                             (row_params row)
                      else markdown)
      in join ''\<newline>'' markdown)"

definition toMarkdown :: "DocEntry list \<Rightarrow> string" where
  "toMarkdown entries =
     (let rows = map toRow entries
      in join ''\<newline>'' (map rowToMarkdown rows))"

definition classesToMarkdown :: "DocEntry \<Rightarrow> string" where
  "classesToMarkdown entry =
     (let markdown = [''# '' @ name entry @ ''\<newline>''];
          markdown = markdown @ [interpolate (documentation entry) @ ''\<newline>''];
          markdown = markdown @ [toMarkdown (nullish (methods entry) []) @ ''\<newline>'']
      in join ''\<newline>'' markdown)"

definition documentationToMarkdown :: "DocEntry list \<Rightarrow> string" where
  "documentationToMarkdown entries =
     (let functions = filter (\<lambda>e. doc_type e = Some ''function'') entries;
          classes = filter (\<lambda>e. doc_type e = Some ''class'') entries;
          consts = filter (\<lambda>e. doc_type e = Some ''const'') entries;
          markdown = [];
          markdown = (if length functions \<noteq> 0
                      then (markdown @ [''# Functions\<newline>'']) @
                           [toMarkdown functions @ ''\<newline>'']
                      else markdown);
          markdown = (if length consts \<noteq> 0
                      then (markdown @ [''# Constants\<newline>'']) @
                           [toMarkdown consts @ ''\<newline>'']
                      else markdown);
          markdown = markdown @ [join ''\<newline>'' (map classesToMarkdown classes)]
      in join ''\<newline>'' markdown)"

section \<open>Example programs\<close>

text \<open>Tokens and identifiers carry no modifier flags.\<close>

definition token :: "SyntaxKind \<Rightarrow> NodeRef \<Rightarrow> NodeRef option \<Rightarrow> Node" where
  "token k r parentName = Node k r 0 None parentName [] []"

text \<open>A function declaration \<^verbatim>\<open>export function <name>() {...}\<close> at reference \<open>r\<close>, its name
  identifier at \<open>r + 2\<close> and its body at \<open>r + 3\<close>; without the \<^verbatim>\<open>export\<close> modifier when
  \<open>flags\<close> is 0.\<close>

definition functionDeclaration :: "NodeRef \<Rightarrow> 32 word \<Rightarrow> NodeRef option \<Rightarrow> Node" where
  "functionDeclaration r flags parentName =
     Node FunctionDeclaration r flags (Some (r + 2)) parentName []
       ((if flags = 0 then [] else [token ExportKeyword (r + 1) (Some (r + 2))]) @
        [token Identifier (r + 2) (Some (r + 2)), token OtherKind (r + 3) (Some (r + 2))])"

definition symbolNamed :: "string \<Rightarrow> NodeRef option \<Rightarrow> Symbol" where
  "symbolNamed n decl =
     \<lparr>getName = n, getDocumentationComment = [], valueDeclaration = decl, getJsDocTags = []\<rparr>"

text \<open>\<^verbatim>\<open>add.ts\<close>: \<^verbatim>\<open>export function add(a: number, b: number): number { return a + b; }\<close>,
  in a program that also holds a library declaration file.\<close>

definition add_file :: SourceFile where
  "add_file =
     \<lparr>sf_fileName = ''add.ts'', isDeclarationFile = False,
      sf_children = [functionDeclaration 1 ModifierFlags_Export None, token EndOfFileToken 5 None]\<rparr>"

definition lib_file :: SourceFile where
  "lib_file =
     \<lparr>sf_fileName = ''lib.d.ts'', isDeclarationFile = True,
      sf_children = [functionDeclaration 101 ModifierFlags_Export None, token EndOfFileToken 105 None]\<rparr>"

definition add_checker :: TypeChecker where
  "add_checker =
     \<lparr>getSymbolAtLocation =
        (\<lambda>loc. if loc = Some 3 then Some (symbolNamed ''add'' (Some 1)) else None),
      getTypeOfSymbolAtLocation =
        (\<lambda>s loc. if loc = Some 1 then Inr (Type ''(a: number, b: number) => number'' [])
                  else Inl CheckerError)\<rparr>"

definition add_createProgram :: "string list \<Rightarrow> unit \<Rightarrow> Program" where
  "add_createProgram fileNames options =
     \<lparr>getSourceFiles = [lib_file, add_file], getTypeChecker = add_checker\<rparr>"

text \<open>\<^verbatim>\<open>hidden.ts\<close>: the function of \<^verbatim>\<open>add.ts\<close> and a second function, neither exported.\<close>

definition hidden_file :: SourceFile where
  "hidden_file =
     \<lparr>sf_fileName = ''hidden.ts'', isDeclarationFile = False,
      sf_children = [functionDeclaration 1 0 None, functionDeclaration 5 0 None,
                     token EndOfFileToken 9 None]\<rparr>"

definition hidden_createProgram :: "string list \<Rightarrow> unit \<Rightarrow> Program" where
  "hidden_createProgram fileNames options =
     \<lparr>getSourceFiles = [lib_file, hidden_file], getTypeChecker = add_checker\<rparr>"

text \<open>\<^verbatim>\<open>export class C { public m() {}  public h = () => 1 }\<close>: the class, its method and
  its arrow-function property.\<close>

definition method_m :: Node where
  "method_m =
     Node MethodDeclaration 14 ModifierFlags_Public (Some 16) (Some 12) []
       [token PublicKeyword 15 (Some 16), token Identifier 16 (Some 16),
        token OtherKind 17 (Some 16)]"

definition property_h :: Node where
  "property_h =
     Node PropertyDeclaration 20 ModifierFlags_Public (Some 22) (Some 12) []
       [token PublicKeyword 21 (Some 22), token Identifier 22 (Some 22),
        Node ArrowFunction 23 0 None (Some 22) [] [token OtherKind 24 None]]"

definition class_C :: Node where
  "class_C =
     Node ClassDeclaration 10 ModifierFlags_Export (Some 12) None []
       [token ExportKeyword 11 (Some 12), token Identifier 12 (Some 12), method_m]"

definition class_checker :: TypeChecker where
  "class_checker =
     \<lparr>getSymbolAtLocation =
        (\<lambda>loc. if loc = Some 12 then Some (symbolNamed ''C'' (Some 10))
               else if loc = Some 16 then Some (symbolNamed ''m'' (Some 14))
               else if loc = Some 22 then Some (symbolNamed ''h'' (Some 20))
               else None),
      getTypeOfSymbolAtLocation =
        (\<lambda>s loc. if loc = Some 10 then Inr (Type ''typeof C'' [Signature [] (Type ''C'' []) []])
                  else if loc = Some 14 then Inr (Type ''() => void'' [])
                  else if loc = Some 20 then Inr (Type ''() => number'' [])
                  else Inl CheckerError)\<rparr>"

text \<open>The class above with the given members after its modifier and its name, and a
  member \<^verbatim>\<open>public x = 1\<close>, a public property without an arrow function.\<close>

definition classDeclaration :: "Node list \<Rightarrow> Node" where
  "classDeclaration members =
     Node ClassDeclaration 10 ModifierFlags_Export (Some 12) None []
       ([token ExportKeyword 11 (Some 12), token Identifier 12 (Some 12)] @ members)"

definition property_x :: Node where
  "property_x =
     Node PropertyDeclaration 26 ModifierFlags_Public (Some 28) (Some 12) []
       [token PublicKeyword 27 (Some 28), token Identifier 28 (Some 28),
        token OtherKind 29 (Some 28)]"

text \<open>A checker that resolves no symbol.\<close>

definition blind_checker :: TypeChecker where
  "blind_checker =
     \<lparr>getSymbolAtLocation = (\<lambda>loc. None),
      getTypeOfSymbolAtLocation = (\<lambda>s loc. Inl CheckerError)\<rparr>"

text \<open>\<^verbatim>\<open>orphan.ts\<close>: \<^verbatim>\<open>export function orphan() {}\<close>, where the symbol the checker resolves for
  the name has no \<^verbatim>\<open>valueDeclaration\<close>. The strict checker fails when it is asked for a
  type at an undefined location; the tolerant one answers with the type \<^verbatim>\<open>any\<close>, as the
  TypeScript checker does.\<close>

definition orphan_file :: SourceFile where
  "orphan_file =
     \<lparr>sf_fileName = ''orphan.ts'', isDeclarationFile = False,
      sf_children = [functionDeclaration 5 ModifierFlags_Export None, token EndOfFileToken 9 None]\<rparr>"

definition strict_checker :: TypeChecker where
  "strict_checker =
     \<lparr>getSymbolAtLocation =
        (\<lambda>loc. if loc = Some 3 then Some (symbolNamed ''add'' (Some 1))
               else if loc = Some 7 then Some (symbolNamed ''orphan'' None)
               else None),
      getTypeOfSymbolAtLocation =
        (\<lambda>s loc. case loc of None \<Rightarrow> Inl CheckerError
                  | Some d \<Rightarrow> Inr (Type ''() => void'' []))\<rparr>"

definition tolerant_checker :: TypeChecker where
  "tolerant_checker =
     \<lparr>getSymbolAtLocation = getSymbolAtLocation strict_checker,
      getTypeOfSymbolAtLocation =
        (\<lambda>s loc. case loc of None \<Rightarrow> Inr (Type ''any'' [])
                  | Some d \<Rightarrow> Inr (Type ''() => void'' []))\<rparr>"

definition orphan_createProgram :: "string list \<Rightarrow> unit \<Rightarrow> Program" where
  "orphan_createProgram fileNames options =
     \<lparr>getSourceFiles = [add_file, orphan_file], getTypeChecker = strict_checker\<rparr>"

text \<open>An exported variable statement with the given declarations:
  \<^verbatim>\<open>export const x = 1\<close> has one declaration with a symbol, \<^verbatim>\<open>export const {a} = o\<close> one
  declaration (a binding pattern) without a symbol, and the statement the parser
  recovers from \<^verbatim>\<open>export var ;\<close> has none. The declaration list, the second child,
  combines its flags with those of the statement.\<close>

definition variableStatement :: "NodeRef \<Rightarrow> VariableDeclaration list \<Rightarrow> Node" where
  "variableStatement r ds =
     Node VariableStatement r ModifierFlags_Export None None ds
       [token ExportKeyword (r + 1) None,
        Node OtherKind (r + 2) ModifierFlags_Export None None [] []]"

text \<open>\<^verbatim>\<open>ns.ts\<close>: \<^verbatim>\<open>export namespace N { export function f() {}  export function g() {} }\<close>.
  The children of the module declaration are its modifier, its name and its body; the
  body is a block without modifiers, and the two function declarations are the
  children of the block.\<close>

definition namespace_N :: Node where
  "namespace_N =
     Node ModuleDeclaration 40 ModifierFlags_Export (Some 42) None []
       [token ExportKeyword 41 (Some 42), token Identifier 42 (Some 42),
        Node ModuleBlock 43 0 None (Some 42) []
          [functionDeclaration 44 ModifierFlags_Export None,
           functionDeclaration 48 ModifierFlags_Export None]]"

definition namespace_checker :: TypeChecker where
  "namespace_checker =
     \<lparr>getSymbolAtLocation =
        (\<lambda>loc. if loc = Some 42 then Some (symbolNamed ''N'' (Some 40))
               else if loc = Some 46 then Some (symbolNamed ''f'' (Some 44))
               else if loc = Some 50 then Some (symbolNamed ''g'' (Some 48))
               else None),
      getTypeOfSymbolAtLocation =
        (\<lambda>s loc. if loc = Some 40 then Inr (Type ''typeof N'' [])
                  else Inr (Type ''() => void'' []))\<rparr>"

definition namespace_createProgram :: "string list \<Rightarrow> unit \<Rightarrow> Program" where
  "namespace_createProgram fileNames options =
     \<lparr>getSourceFiles =
        [\<lparr>sf_fileName = ''ns.ts'', isDeclarationFile = False,
          sf_children = [namespace_N, token EndOfFileToken 52 None]\<rparr>],
      getTypeChecker = namespace_checker\<rparr>"

text \<open>Records as the renderer expects them, with \<^verbatim>\<open>doc_type\<close> set: a function with two
  parameters, a constant, a class with one method, and a record without \<^verbatim>\<open>doc_type\<close>.\<close>

definition parameterEntry :: "string \<Rightarrow> string option \<Rightarrow> DocEntry" where
  "parameterEntry n d = DocEntry n None d (Some ''number'') None None None None None None"

definition add_entry :: DocEntry where
  "add_entry =
     DocEntry ''add'' None (Some ''Adds two numbers.'')
       (Some ''(a: number, b: number) => number'') None
       (Some [parameterEntry ''a'' (Some ''the first''), parameterEntry ''b'' None]) None
       (Some ''number'') None (Some ''function'')"

definition pi_entry :: DocEntry where
  "pi_entry =
     DocEntry ''PI'' None None None None None None None None (Some ''const'')"

definition counter_entry :: DocEntry where
  "counter_entry =
     DocEntry ''Counter'' None (Some ''Counts.'') (Some ''typeof Counter'') None None
       (Some [DocEntry ''inc'' None None (Some ''() => void'') None None None None None None])
       None None (Some ''class'')"

definition untagged_entry :: DocEntry where
  "untagged_entry =
     DocEntry ''sub'' None None (Some ''() => void'') None None None None None None"

lemmas example_defs =
  token_def functionDeclaration_def symbolNamed_def add_file_def lib_file_def add_checker_def
  add_createProgram_def hidden_file_def hidden_createProgram_def
  method_m_def property_h_def class_C_def class_checker_def blind_checker_def
  classDeclaration_def property_x_def
  orphan_file_def strict_checker_def tolerant_checker_def orphan_createProgram_def
  variableStatement_def namespace_N_def namespace_checker_def namespace_createProgram_def
  parameterEntry_def add_entry_def pi_entry_def counter_entry_def untagged_entry_def

lemmas extractor_defs =
  serializeClass_def serializeSymbol_def serializeSignature_def addDocEntry_def
  generateDocumentation_def visitSourceFile_def pushAll_def displayPartsToString_def

lemmas renderer_defs =
  documentationToMarkdown_def classesToMarkdown_def toMarkdown_def rowToMarkdown_def toRow_def
  nullish_def interpolate_def

lemmas flag_defs = isNodeExportedOrPublic_def ModifierFlags_Export_def ModifierFlags_Public_def

section \<open>Running steps in order\<close>

lemma pushAll_Nil: "pushAll [] = Inr []"
  by (simp add: pushAll_def)

lemma pushAll_Cons:
  "pushAll (r # rs) =
     (case r of Inl e \<Rightarrow> Inl e
      | Inr xs \<Rightarrow> (case pushAll rs of Inl e \<Rightarrow> Inl e | Inr ys \<Rightarrow> Inr (xs @ ys)))"
  by (simp add: pushAll_def split: sum.splits)

lemma pushAll_append:
  "pushAll (rs @ ss) =
     (case pushAll rs of Inl e \<Rightarrow> Inl e
      | Inr xs \<Rightarrow> (case pushAll ss of Inl e \<Rightarrow> Inl e | Inr ys \<Rightarrow> Inr (xs @ ys)))"
  by (induction rs) (simp_all add: pushAll_Nil pushAll_Cons split: sum.splits)

lemma pushAll_all_empty:
  "\<forall>r \<in> set rs. r = Inr [] \<Longrightarrow> pushAll rs = Inr []"
  by (induction rs) (simp_all add: pushAll_Nil pushAll_Cons)

lemma pushAll_skip: "pushAll (rs @ Inr [] # ss) = pushAll (rs @ ss)"
  by (simp add: pushAll_append pushAll_Cons split: sum.splits)

lemma pushAll_fault:
  "Inl e \<in> set rs \<Longrightarrow> \<exists>e'. pushAll rs = Inl e'"
  by (induction rs) (auto simp: pushAll_Cons split: sum.splits)

lemma pushAll_Inr_mem:
  "pushAll rs = Inr ys \<Longrightarrow> y \<in> set ys \<Longrightarrow> \<exists>xs. Inr xs \<in> set rs \<and> y \<in> set xs"
proof (induction rs arbitrary: ys)
  case Nil
  then show ?case by (simp add: pushAll_Nil)
next
  case (Cons r rs)
  from Cons.prems(1) obtain xs zs where r: "r = Inr xs" and zs: "pushAll rs = Inr zs"
    and ys: "ys = xs @ zs"
    by (auto simp: pushAll_Cons split: sum.splits)
  from Cons.prems(2) ys have "y \<in> set xs \<or> y \<in> set zs" by simp
  then show ?case
  proof
    assume "y \<in> set xs"
    with r show ?thesis by auto
  next
    assume "y \<in> set zs"
    from Cons.IH [OF zs this] show ?thesis by auto
  qed
qed

section \<open>The visiting rule, branch by branch\<close>

text \<open>The defining equation of \<^verbatim>\<open>visit\<close> for a node given by its properties.\<close>

lemma visit_unfold:
  "visit checker node =
     (if \<not> isNodeExportedOrPublic node then Inr []
      else if kind node = ClassDeclaration \<and> node_name node \<noteq> None then
        (case getSymbolAtLocation checker (node_name node) of
           None \<Rightarrow> Inr []
         | Some symbol \<Rightarrow>
             (case serializeClass checker symbol of
                Inl e \<Rightarrow> Inl e
              | Inr classEntry \<Rightarrow>
                  (case pushAll (map (visit checker) (children node)) of
                     Inl e \<Rightarrow> Inl e
                   | Inr ms \<Rightarrow> Inr [set_methods ms classEntry])))
      else if kind node = ModuleDeclaration then pushAll (map (visit checker) (children node))
      else if kind node = MethodDeclaration then
        addDocEntry checker (getSymbolAtLocation checker (node_name node))
      else if kind node = FunctionDeclaration then
        addDocEntry checker
          (getSymbolAtLocation checker
             (case node_name node of None \<Rightarrow> Some (self node) | Some n \<Rightarrow> Some n))
      else if kind node = VariableStatement then
        (case declarations node of
           [] \<Rightarrow> Inl TypeError
         | d # _ \<Rightarrow> addDocEntry checker (decl_symbol d))
      else
        (case findDescendantArrowFunction node of
           None \<Rightarrow> Inr []
         | Some arrowFunc \<Rightarrow>
             addDocEntry checker (getSymbolAtLocation checker (parent_name arrowFunc))))"
proof (cases node)
  case (Node k p fl nm pn ds cs)
  show ?thesis
    unfolding Node by (auto simp: Let_def split: option.splits sum.splits)
qed

lemma visit_ModuleDeclaration:
  "isNodeExportedOrPublic node \<Longrightarrow> kind node = ModuleDeclaration \<Longrightarrow>
   visit checker node = pushAll (map (visit checker) (children node))"
  by (subst visit_unfold) simp

lemma not_exported_iff:
  "(\<not> isNodeExportedOrPublic node) =
     (getCombinedModifierFlags node AND ModifierFlags_Export = 0 \<and>
      getCombinedModifierFlags node AND ModifierFlags_Public = 0)"
  by (simp add: isNodeExportedOrPublic_def Let_def)

lemma visit_not_exported: "\<not> isNodeExportedOrPublic node \<Longrightarrow> visit checker node = Inr []"
  by (subst visit_unfold) simp

lemma visitSourceFile_not_exported:
  "\<forall>node \<in> set (sf_children f). \<not> isNodeExportedOrPublic node \<Longrightarrow>
   visitSourceFile checker f = Inr []"
  unfolding visitSourceFile_def
  by (rule pushAll_all_empty) (auto simp: visit_not_exported)

lemma visit_skip:
  "visit checker node = Inr [] \<Longrightarrow>
   pushAll (map (visit checker) (before @ node # after)) =
   pushAll (map (visit checker) (before @ after))"
  by (simp add: pushAll_skip)

lemma visit_children_fault:
  assumes "isNodeExportedOrPublic node"
    and "kind node = ModuleDeclaration \<or>
         (kind node = ClassDeclaration \<and> node_name node \<noteq> None \<and>
          getSymbolAtLocation checker (node_name node) \<noteq> None)"
    and "c \<in> set (children node)" and "visit checker c = Inl e"
  shows "\<exists>e'. visit checker node = Inl e'"
proof -
  have "Inl e \<in> set (map (visit checker) (children node))"
    using assms(3,4) by (force simp: image_iff)
  then obtain e' where "pushAll (map (visit checker) (children node)) = Inl e'"
    using pushAll_fault by blast
  then show ?thesis
    using assms(1,2) by (subst visit_unfold) (auto split: sum.splits)
qed

lemma visitSourceFile_fault:
  assumes "n \<in> set (sf_children f)" and "visit checker n = Inl e"
  shows "\<exists>e'. visitSourceFile checker f = Inl e'"
proof -
  have "Inl e \<in> set (map (\<lambda>node. (case visit checker node of
                              Inl e \<Rightarrow> Inl e
                            | Inr entries \<Rightarrow> Inr (map (set_fileName (sf_fileName f)) entries)))
                (sf_children f))"
    using assms by (force simp: image_iff)
  then show ?thesis
    unfolding visitSourceFile_def by (rule pushAll_fault)
qed

lemma generateDocumentation_fault:
  assumes "f \<in> set (getSourceFiles (createProgram fileNames options))"
    and "\<not> isDeclarationFile f"
    and "visitSourceFile (getTypeChecker (createProgram fileNames options)) f = Inl e"
  shows "\<exists>e'. generateDocumentation createProgram fileNames options = Inl e'"
proof -
  have "Inl e \<in> set (map (visitSourceFile (getTypeChecker (createProgram fileNames options)))
          (filter (\<lambda>f. \<not> isDeclarationFile f) (getSourceFiles (createProgram fileNames options))))"
    using assms by (force simp: image_iff)
  then have "\<exists>e'. pushAll (map (visitSourceFile (getTypeChecker (createProgram fileNames options)))
          (filter (\<lambda>f. \<not> isDeclarationFile f) (getSourceFiles (createProgram fileNames options)))) = Inl e'"
    by (rule pushAll_fault)
  then show ?thesis
    by (simp add: generateDocumentation_def Let_def)
qed

section \<open>Properties of the records\<close>

lemma set_methods_sel [simp]:
  "name (set_methods ms e) = name e"
  "methods (set_methods ms e) = Some ms"
  "doc_type (set_methods ms e) = doc_type e"
  by (cases e; simp)+

lemma set_constructors_sel [simp]:
  "name (set_constructors cs e) = name e"
  "constructors (set_constructors cs e) = Some cs"
  "doc_type (set_constructors cs e) = doc_type e"
  by (cases e; simp)+

lemma set_fileName_sel [simp]:
  "name (set_fileName f e) = name e"
  "fileName (set_fileName f e) = Some f"
  "doc_type (set_fileName f e) = doc_type e"
  by (cases e; simp)+

lemma serializeSymbol_Inr:
  "serializeSymbol checker symbol = Inr e \<Longrightarrow>
   name e = getName symbol \<and> doc_type e = None \<and> parameters e = None \<and> returnType e = None"
  by (auto simp: serializeSymbol_def split: sum.splits)

lemma serializeClass_Inr:
  "serializeClass checker symbol = Inr e \<Longrightarrow> name e = getName symbol \<and> doc_type e = None"
  by (auto simp: serializeClass_def split: sum.splits dest: serializeSymbol_Inr)

lemma addDocEntry_None: "addDocEntry checker None = Inr []"
  by (simp add: addDocEntry_def)

lemma addDocEntry_Some:
  "addDocEntry checker (Some s) =
     (case serializeSymbol checker s of Inl e \<Rightarrow> Inl e | Inr details \<Rightarrow> Inr [details])"
  by (simp add: addDocEntry_def)

lemma visit_doc_type:
  "visit checker node = Inr es \<Longrightarrow> e \<in> set es \<Longrightarrow> doc_type e = None"
proof (induction node arbitrary: es e)
  case (Node k p fl nm pn ds cs)
  have kids: "\<And>ys y. pushAll (map (visit checker) cs) = Inr ys \<Longrightarrow> y \<in> set ys \<Longrightarrow> doc_type y = None"
  proof -
    fix ys y
    assume "pushAll (map (visit checker) cs) = Inr ys" and "y \<in> set ys"
    from pushAll_Inr_mem [OF this] obtain xs where "Inr xs \<in> set (map (visit checker) cs)"
      and y: "y \<in> set xs" by blast
    then obtain c where "c \<in> set cs" and "visit checker c = Inr xs" by auto
    with y show "doc_type y = None" using Node.IH by blast
  qed
  have add: "\<And>sym. addDocEntry checker sym = Inr es \<Longrightarrow> doc_type e = None"
    using Node.prems(2)
    by (auto simp: addDocEntry_def split: option.splits sum.splits dest: serializeSymbol_Inr)
  from Node.prems show ?case
    by (subst (asm) visit_unfold)
      (auto split: if_splits option.splits sum.splits list.splits
        dest: serializeClass_Inr kids add)
qed

lemma generateDocumentation_doc_type:
  assumes "generateDocumentation createProgram fileNames options = Inr entries"
    and "e \<in> set entries"
  shows "doc_type e = None"
proof -
  let ?ck = "getTypeChecker (createProgram fileNames options)"
  from assms(1) have "pushAll (map (visitSourceFile ?ck)
      (filter (\<lambda>f. \<not> isDeclarationFile f) (getSourceFiles (createProgram fileNames options))))
      = Inr entries"
    by (simp add: generateDocumentation_def Let_def)
  from pushAll_Inr_mem [OF this assms(2)] obtain xs
    where m: "Inr xs \<in> set (map (visitSourceFile ?ck)
      (filter (\<lambda>f. \<not> isDeclarationFile f) (getSourceFiles (createProgram fileNames options))))"
      and e: "e \<in> set xs"
    by blast
  from m obtain f where "Inr xs = visitSourceFile ?ck f"
    by auto
  then have f: "visitSourceFile ?ck f = Inr xs"
    by (rule sym)
  from pushAll_Inr_mem [OF f [unfolded visitSourceFile_def] e] obtain ys
    where m': "Inr ys \<in> set (map (\<lambda>node. (case visit ?ck node of Inl e \<Rightarrow> Inl e
               | Inr entries \<Rightarrow> Inr (map (set_fileName (sf_fileName f)) entries)))
               (sf_children f))"
      and y: "e \<in> set ys"
    by blast
  from m' obtain n where "Inr ys = (case visit ?ck n of Inl e \<Rightarrow> Inl e
               | Inr entries \<Rightarrow> Inr (map (set_fileName (sf_fileName f)) entries))"
    by auto
  then have n: "(case visit ?ck n of Inl e \<Rightarrow> Inl e
               | Inr entries \<Rightarrow> Inr (map (set_fileName (sf_fileName f)) entries)) = Inr ys"
    by (rule sym)
  from n obtain zs where zs: "visit ?ck n = Inr zs" and ys: "ys = map (set_fileName (sf_fileName f)) zs"
    by (auto split: sum.splits)
  from y ys obtain z where "z \<in> set zs" and "e = set_fileName (sf_fileName f) z"
    by auto
  with visit_doc_type [OF zs] show ?thesis
    by simp
qed

lemma documentationToMarkdown_no_doc_type:
  assumes "\<forall>e \<in> set entries. doc_type e = None"
  shows "documentationToMarkdown entries = []"
proof -
  have "filter (\<lambda>e. doc_type e = Some ''function'') entries = []"
    and "filter (\<lambda>e. doc_type e = Some ''class'') entries = []"
    and "filter (\<lambda>e. doc_type e = Some ''const'') entries = []"
    using assms by (simp_all add: filter_empty_conv)
  then show ?thesis
    by (simp add: documentationToMarkdown_def)
qed

section \<open>The visibility gate\<close>

text \<open>
  Claim C3. \<^verbatim>\<open>visit\<close> returns the empty sequence for every node whose combined modifier
  flags contain neither \<^verbatim>\<open>Export\<close> nor \<^verbatim>\<open>Public\<close>, whatever its kind and whatever the checker
  would answer; and when no child of any source file of the program that is not a
  declaration file carries either flag, \<^verbatim>\<open>generateDocumentation\<close> returns the empty
  sequence.
\<close>

theorem visit_gate:
  "(getCombinedModifierFlags node AND ModifierFlags_Export = 0 \<and>
    getCombinedModifierFlags node AND ModifierFlags_Public = 0
    \<longrightarrow> visit checker node = Inr []) \<and>
   ((\<forall>f \<in> set (getSourceFiles (createProgram fileNames options)).
       \<not> isDeclarationFile f \<longrightarrow>
       (\<forall>n \<in> set (sf_children f).
          getCombinedModifierFlags n AND ModifierFlags_Export = 0 \<and>
          getCombinedModifierFlags n AND ModifierFlags_Public = 0))
    \<longrightarrow> generateDocumentation createProgram fileNames options = Inr [])"
proof (intro conjI impI)
  assume "getCombinedModifierFlags node AND ModifierFlags_Export = 0 \<and>
    getCombinedModifierFlags node AND ModifierFlags_Public = 0"
  then have "\<not> isNodeExportedOrPublic node"
    by (simp add: not_exported_iff)
  then show "visit checker node = Inr []"
    by (rule visit_not_exported)
next
  assume all: "\<forall>f \<in> set (getSourceFiles (createProgram fileNames options)).
       \<not> isDeclarationFile f \<longrightarrow>
       (\<forall>n \<in> set (sf_children f).
          getCombinedModifierFlags n AND ModifierFlags_Export = 0 \<and>
          getCombinedModifierFlags n AND ModifierFlags_Public = 0)"
  have "pushAll (map (visitSourceFile (getTypeChecker (createProgram fileNames options)))
          (filter (\<lambda>f. \<not> isDeclarationFile f) (getSourceFiles (createProgram fileNames options))))
        = Inr []"
  proof (rule pushAll_all_empty, rule ballI)
    fix r
    assume "r \<in> set (map (visitSourceFile (getTypeChecker (createProgram fileNames options)))
          (filter (\<lambda>f. \<not> isDeclarationFile f) (getSourceFiles (createProgram fileNames options))))"
    then obtain f where f: "f \<in> set (getSourceFiles (createProgram fileNames options))"
      "\<not> isDeclarationFile f"
      and r: "r = visitSourceFile (getTypeChecker (createProgram fileNames options)) f"
      by auto
    from all f have "\<forall>n \<in> set (sf_children f). \<not> isNodeExportedOrPublic n"
      by (simp add: not_exported_iff)
    then show "r = Inr []"
      unfolding r by (rule visitSourceFile_not_exported)
  qed
  then show "generateDocumentation createProgram fileNames options = Inr []"
    by (simp add: generateDocumentation_def Let_def)
qed

theorem visit_gate_witness:
  "getCombinedModifierFlags (functionDeclaration 1 0 None) AND ModifierFlags_Export = 0 \<and>
   getCombinedModifierFlags (functionDeclaration 1 0 None) AND ModifierFlags_Public = 0 \<and>
   getSymbolAtLocation add_checker (node_name (functionDeclaration 1 0 None)) =
     Some (symbolNamed ''add'' (Some 1)) \<and>
   visit add_checker (functionDeclaration 1 0 None) = Inr [] \<and>
   getSourceFiles (hidden_createProgram [''hidden.ts''] ()) = [lib_file, hidden_file] \<and>
   isDeclarationFile lib_file \<and> \<not> isDeclarationFile hidden_file \<and>
   generateDocumentation hidden_createProgram [''hidden.ts''] () = Inr []"
  using visit_gate [of "functionDeclaration 1 0 None" add_checker hidden_createProgram
      "[''hidden.ts'']" "()"]
  by (simp add: example_defs)

section \<open>Unresolved symbols\<close>

text \<open>
  Claim C6. Let a node pass the visibility gate and be taken by the class branch (a
  class declaration with a name), the method branch, the function branch or the final
  branch with an arrow function among its descendants. If the checker resolves no
  symbol for the name the branch looks up, \<^verbatim>\<open>visit\<close> returns normally with no record, and
  a traversal that has this node among the children it visits yields what it yields
  without the node.
\<close>

theorem unresolved_symbol_skipped:
  assumes "isNodeExportedOrPublic node"
    and "(kind node = ClassDeclaration \<and> node_name node \<noteq> None \<and>
          getSymbolAtLocation checker (node_name node) = None)
       \<or> (kind node = MethodDeclaration \<and>
          getSymbolAtLocation checker (node_name node) = None)
       \<or> (kind node = FunctionDeclaration \<and>
          getSymbolAtLocation checker
            (case node_name node of None \<Rightarrow> Some (self node) | Some n \<Rightarrow> Some n) = None)
       \<or> (\<not> (kind node = ClassDeclaration \<and> node_name node \<noteq> None) \<and>
          kind node \<noteq> ModuleDeclaration \<and> kind node \<noteq> MethodDeclaration \<and>
          kind node \<noteq> FunctionDeclaration \<and> kind node \<noteq> VariableStatement \<and>
          (\<exists>arrowFunc. findDescendantArrowFunction node = Some arrowFunc \<and>
             getSymbolAtLocation checker (parent_name arrowFunc) = None))"
  shows "visit checker node = Inr [] \<and>
         (\<forall>before after.
            pushAll (map (visit checker) (before @ node # after)) =
            pushAll (map (visit checker) (before @ after)))"
proof -
  from assms have "visit checker node = Inr []"
    by (subst visit_unfold) (auto simp: addDocEntry_None)
  then show ?thesis
    by (simp add: pushAll_skip)
qed

theorem unresolved_symbol_skipped_witness:
  "isNodeExportedOrPublic class_C \<and> kind class_C = ClassDeclaration \<and>
   node_name class_C = Some 12 \<and> getSymbolAtLocation blind_checker (Some 12) = None \<and>
   visit blind_checker class_C = Inr [] \<and>
   isNodeExportedOrPublic method_m \<and> kind method_m = MethodDeclaration \<and>
   visit blind_checker method_m = Inr [] \<and>
   isNodeExportedOrPublic (functionDeclaration 1 ModifierFlags_Export None) \<and>
   visit blind_checker (functionDeclaration 1 ModifierFlags_Export None) = Inr [] \<and>
   isNodeExportedOrPublic property_h \<and> kind property_h = PropertyDeclaration \<and>
   findDescendantArrowFunction property_h =
     Some (Node ArrowFunction 23 0 None (Some 22) [] [token OtherKind 24 None]) \<and>
   visit blind_checker property_h = Inr [] \<and>
   getSymbolAtLocation add_checker (node_name method_m) = None \<and>
   pushAll (map (visit add_checker) [method_m, functionDeclaration 1 ModifierFlags_Export None]) =
   pushAll (map (visit add_checker) [functionDeclaration 1 ModifierFlags_Export None]) \<and>
   pushAll (map (visit add_checker) [method_m, functionDeclaration 1 ModifierFlags_Export None]) =
     Inr [DocEntry ''add'' None (Some []) (Some ''(a: number, b: number) => number'') None None
            None None (Some []) None]"
  using unresolved_symbol_skipped [of class_C blind_checker]
    unresolved_symbol_skipped [of method_m blind_checker]
    unresolved_symbol_skipped [of "functionDeclaration 1 ModifierFlags_Export None" blind_checker]
    unresolved_symbol_skipped [of property_h blind_checker]
    unresolved_symbol_skipped [of method_m add_checker, THEN conjunct2, THEN spec, THEN spec,
      of "[]" "[functionDeclaration 1 ModifierFlags_Export None]"]
  by (simp add: example_defs flag_defs extractor_defs)

section \<open>Classes\<close>

text \<open>
  Claim C4, as the code has it. Let a class declaration with a name pass the visibility
  gate, let the checker resolve its name to a symbol, and let the serialization of that
  symbol as a class return. Then \<^verbatim>\<open>visit\<close> yields exactly one record, the class record,
  named after the symbol, whose \<^verbatim>\<open>methods\<close> are the records of \<^verbatim>\<open>visit\<close> over the direct
  children of the class node, in order, whatever their kind (and a fault of a child is
  the fault of the call). With no children \<^verbatim>\<open>methods\<close> is the empty sequence. When one
  child is a method declaration that passes the gate and whose name resolves to a symbol
  that serializes to a record, and \<^verbatim>\<open>visit\<close> yields no record for any other child,
  \<^verbatim>\<open>methods\<close> holds exactly that record, named after the method's symbol.
\<close>

theorem class_with_method:
  assumes "kind node = ClassDeclaration" and "node_name node = Some nm"
    and "isNodeExportedOrPublic node"
    and "getSymbolAtLocation checker (Some nm) = Some c"
    and "serializeClass checker c = Inr classEntry"
  shows "visit checker node =
           (case pushAll (map (visit checker) (children node)) of
              Inl e \<Rightarrow> Inl e
            | Inr ms \<Rightarrow> Inr [set_methods ms classEntry]) \<and>
         name classEntry = getName c \<and>
         (children node = [] \<longrightarrow> visit checker node = Inr [set_methods [] classEntry]) \<and>
         (children node = before @ m # after \<and>
          (\<forall>x \<in> set before \<union> set after. visit checker x = Inr []) \<and>
          kind m = MethodDeclaration \<and> isNodeExportedOrPublic m \<and>
          getSymbolAtLocation checker (node_name m) = Some sm \<and>
          serializeSymbol checker sm = Inr methodEntry
          \<longrightarrow> visit checker node = Inr [set_methods [methodEntry] classEntry] \<and>
              name (set_methods [methodEntry] classEntry) = getName c \<and>
              methods (set_methods [methodEntry] classEntry) = Some [methodEntry] \<and>
              name methodEntry = getName sm)"
proof (intro conjI impI)
  show v: "visit checker node =
           (case pushAll (map (visit checker) (children node)) of
              Inl e \<Rightarrow> Inl e
            | Inr ms \<Rightarrow> Inr [set_methods ms classEntry])"
    using assms by (subst visit_unfold) simp
  show n: "name classEntry = getName c"
    using assms(5) by (simp add: serializeClass_Inr)
  {
    assume "children node = []"
    then show "visit checker node = Inr [set_methods [] classEntry]"
      by (simp add: v pushAll_Nil)
  }
  assume "children node = before @ m # after \<and>
          (\<forall>x \<in> set before \<union> set after. visit checker x = Inr []) \<and>
          kind m = MethodDeclaration \<and> isNodeExportedOrPublic m \<and>
          getSymbolAtLocation checker (node_name m) = Some sm \<and>
          serializeSymbol checker sm = Inr methodEntry"
  then have ch: "children node = before @ m # after"
    and hid: "\<forall>x \<in> set before \<union> set after. visit checker x = Inr []"
    and m: "kind m = MethodDeclaration" "isNodeExportedOrPublic m"
      "getSymbolAtLocation checker (node_name m) = Some sm"
      "serializeSymbol checker sm = Inr methodEntry"
    by simp_all
  have b: "pushAll (map (visit checker) before) = Inr []"
    using hid by (intro pushAll_all_empty) auto
  have a: "pushAll (map (visit checker) after) = Inr []"
    using hid by (intro pushAll_all_empty) auto
  have vm: "visit checker m = Inr [methodEntry]"
    using m by (subst visit_unfold) (simp add: addDocEntry_Some)
  have "pushAll (map (visit checker) (children node)) = Inr [methodEntry]"
    by (simp add: ch pushAll_append pushAll_Cons a b vm)
  then show "visit checker node = Inr [set_methods [methodEntry] classEntry]"
    by (simp add: v)
  show "name (set_methods [methodEntry] classEntry) = getName c"
    by (simp add: n)
  show "methods (set_methods [methodEntry] classEntry) = Some [methodEntry]"
    by simp
  show "name methodEntry = getName sm"
    using m(4) by (simp add: serializeSymbol_Inr)
qed

theorem class_with_method_witness:
  "kind (classDeclaration [property_x, method_m]) = ClassDeclaration \<and>
   node_name (classDeclaration [property_x, method_m]) = Some 12 \<and>
   isNodeExportedOrPublic (classDeclaration [property_x, method_m]) \<and>
   getSymbolAtLocation class_checker (Some 12) = Some (symbolNamed ''C'' (Some 10)) \<and>
   children (classDeclaration [property_x, method_m]) =
     [token ExportKeyword 11 (Some 12), token Identifier 12 (Some 12), property_x] @
     method_m # [] \<and>
   visit class_checker (token ExportKeyword 11 (Some 12)) = Inr [] \<and>
   visit class_checker (token Identifier 12 (Some 12)) = Inr [] \<and>
   isNodeExportedOrPublic property_x \<and> visit class_checker property_x = Inr [] \<and>
   kind method_m = MethodDeclaration \<and> isNodeExportedOrPublic method_m \<and>
   getSymbolAtLocation class_checker (node_name method_m) = Some (symbolNamed ''m'' (Some 14)) \<and>
   visit class_checker (classDeclaration [property_x, method_m]) =
     Inr [DocEntry ''C'' None (Some []) (Some ''typeof C'')
            (Some [SignatureEntry (Some []) (Some ''C'') (Some [])]) None
            (Some [DocEntry ''m'' None (Some []) (Some ''() => void'') None None None None
                     (Some []) None])
            None (Some []) None] \<and>
   visit class_checker (classDeclaration []) =
     Inr [DocEntry ''C'' None (Some []) (Some ''typeof C'')
            (Some [SignatureEntry (Some []) (Some ''C'') (Some [])]) None (Some [])
            None (Some []) None]"
  using class_with_method
    [where node = "classDeclaration [property_x, method_m]" and nm = 12
       and checker = class_checker and c = "symbolNamed ''C'' (Some 10)"
       and classEntry = "DocEntry ''C'' None (Some []) (Some ''typeof C'')
            (Some [SignatureEntry (Some []) (Some ''C'') (Some [])]) None None None (Some []) None"
       and before = "[token ExportKeyword 11 (Some 12), token Identifier 12 (Some 12), property_x]"
       and m = method_m and after = "[]" and sm = "symbolNamed ''m'' (Some 14)"
       and methodEntry = "DocEntry ''m'' None (Some []) (Some ''() => void'') None None None None
                     (Some []) None"]
    class_with_method
    [where node = "classDeclaration []" and nm = 12
       and checker = class_checker and c = "symbolNamed ''C'' (Some 10)"
       and classEntry = "DocEntry ''C'' None (Some []) (Some ''typeof C'')
            (Some [SignatureEntry (Some []) (Some ''C'') (Some [])]) None None None (Some []) None",
     THEN conjunct1]
  by (simp add: example_defs flag_defs extractor_defs)

text \<open>
  Claim C4, as stated, fails: \<^verbatim>\<open>export class C { public m() {}  public h = () => 1 }\<close> has
  exactly one public method, \<^verbatim>\<open>m\<close>, yet the \<^verbatim>\<open>methods\<close> of its record hold two entries,
  \<^verbatim>\<open>m\<close> and \<^verbatim>\<open>h\<close>: the public property is a direct child too, passes the gate, and the
  final branch of \<^verbatim>\<open>visit\<close> finds its arrow function.
\<close>

theorem class_with_arrow_property:
  "kind method_m = MethodDeclaration \<and> kind property_h = PropertyDeclaration \<and>
   visit class_checker (classDeclaration [method_m, property_h]) =
     Inr [DocEntry ''C'' None (Some []) (Some ''typeof C'')
            (Some [SignatureEntry (Some []) (Some ''C'') (Some [])]) None
            (Some [DocEntry ''m'' None (Some []) (Some ''() => void'') None None None None
                     (Some []) None,
                   DocEntry ''h'' None (Some []) (Some ''() => number'') None None None None
                     (Some []) None])
            None (Some []) None]"
  by (simp add: example_defs flag_defs extractor_defs)

section \<open>Faults of the type lookup\<close>

text \<open>
  Claim C7, as the code has it. \<^verbatim>\<open>serializeSymbol\<close> hands the symbol's \<^verbatim>\<open>valueDeclaration\<close>,
  defined or not, to the checker's \<^verbatim>\<open>getTypeOfSymbolAtLocation\<close> and tests nothing itself:
  it fails exactly when that call fails, with the same fault, and returns the record
  whenever that call returns, whether or not the symbol has a declaring location. A
  fault of the call is the fault of \<^verbatim>\<open>serializeClass\<close> and of \<^verbatim>\<open>addDocEntry\<close>; a fault of
  \<^verbatim>\<open>visit\<close> on a child is a fault of \<^verbatim>\<open>visit\<close> on the enclosing namespace or resolved class;
  and a fault of \<^verbatim>\<open>visit\<close> on any child of any visited source file makes the whole of
  \<^verbatim>\<open>generateDocumentation\<close> fail, with no partial result. Every branch of \<^verbatim>\<open>visit\<close> that
  serializes a symbol fails with the fault of that symbol's type lookup.
\<close>

theorem serializeSymbol_fault:
  "(serializeSymbol checker symbol = Inl e \<longleftrightarrow>
      getTypeOfSymbolAtLocation checker symbol (valueDeclaration symbol) = Inl e) \<and>
   (getTypeOfSymbolAtLocation checker symbol (valueDeclaration symbol) = Inr ty \<longrightarrow>
      serializeSymbol checker symbol =
        Inr (DocEntry (getName symbol) None
               (Some (displayPartsToString (getDocumentationComment symbol)))
               (Some (typeToString ty)) None None None None (Some (getJsDocTags symbol)) None)) \<and>
   (getTypeOfSymbolAtLocation checker symbol (valueDeclaration symbol) = Inl e \<longrightarrow>
      serializeClass checker symbol = Inl e \<and> addDocEntry checker (Some symbol) = Inl e) \<and>
   (getTypeOfSymbolAtLocation checker symbol (valueDeclaration symbol) = Inl e \<and>
    isNodeExportedOrPublic node \<and>
    ((kind node = ClassDeclaration \<and> node_name node \<noteq> None \<and>
      getSymbolAtLocation checker (node_name node) = Some symbol)
     \<or> (kind node = MethodDeclaration \<and>
        getSymbolAtLocation checker (node_name node) = Some symbol)
     \<or> (kind node = FunctionDeclaration \<and>
        getSymbolAtLocation checker
          (case node_name node of None \<Rightarrow> Some (self node) | Some n \<Rightarrow> Some n) = Some symbol)
     \<or> (kind node = VariableStatement \<and>
        (\<exists>d ds. declarations node = d # ds \<and> decl_symbol d = Some symbol))
     \<or> (\<not> (kind node = ClassDeclaration \<and> node_name node \<noteq> None) \<and>
        kind node \<noteq> ModuleDeclaration \<and> kind node \<noteq> MethodDeclaration \<and>
        kind node \<noteq> FunctionDeclaration \<and> kind node \<noteq> VariableStatement \<and>
        (\<exists>arrowFunc. findDescendantArrowFunction node = Some arrowFunc \<and>
           getSymbolAtLocation checker (parent_name arrowFunc) = Some symbol)))
    \<longrightarrow> visit checker node = Inl e) \<and>
   (isNodeExportedOrPublic node \<and>
    (kind node = ModuleDeclaration \<or>
     (kind node = ClassDeclaration \<and> node_name node \<noteq> None \<and>
      getSymbolAtLocation checker (node_name node) \<noteq> None)) \<and>
    (\<exists>c \<in> set (children node). \<exists>e. visit checker c = Inl e)
    \<longrightarrow> (\<exists>e'. visit checker node = Inl e')) \<and>
   ((\<exists>f \<in> set (getSourceFiles (createProgram fileNames options)).
       \<not> isDeclarationFile f \<and>
       (\<exists>n \<in> set (sf_children f). \<exists>e.
          visit (getTypeChecker (createProgram fileNames options)) n = Inl e))
    \<longrightarrow> (\<exists>e'. generateDocumentation createProgram fileNames options = Inl e'))"
proof (intro conjI impI)
  show "serializeSymbol checker symbol = Inl e \<longleftrightarrow>
      getTypeOfSymbolAtLocation checker symbol (valueDeclaration symbol) = Inl e"
    by (simp add: serializeSymbol_def split: sum.splits)
next
  assume "getTypeOfSymbolAtLocation checker symbol (valueDeclaration symbol) = Inr ty"
  then show "serializeSymbol checker symbol =
        Inr (DocEntry (getName symbol) None
               (Some (displayPartsToString (getDocumentationComment symbol)))
               (Some (typeToString ty)) None None None None (Some (getJsDocTags symbol)) None)"
    by (simp add: serializeSymbol_def)
next
  assume "getTypeOfSymbolAtLocation checker symbol (valueDeclaration symbol) = Inl e"
  then show "serializeClass checker symbol = Inl e"
    by (simp add: serializeClass_def serializeSymbol_def)
next
  assume "getTypeOfSymbolAtLocation checker symbol (valueDeclaration symbol) = Inl e"
  then show "addDocEntry checker (Some symbol) = Inl e"
    by (simp add: addDocEntry_def serializeSymbol_def)
next
  assume a: "getTypeOfSymbolAtLocation checker symbol (valueDeclaration symbol) = Inl e \<and>
    isNodeExportedOrPublic node \<and>
    ((kind node = ClassDeclaration \<and> node_name node \<noteq> None \<and>
      getSymbolAtLocation checker (node_name node) = Some symbol)
     \<or> (kind node = MethodDeclaration \<and>
        getSymbolAtLocation checker (node_name node) = Some symbol)
     \<or> (kind node = FunctionDeclaration \<and>
        getSymbolAtLocation checker
          (case node_name node of None \<Rightarrow> Some (self node) | Some n \<Rightarrow> Some n) = Some symbol)
     \<or> (kind node = VariableStatement \<and>
        (\<exists>d ds. declarations node = d # ds \<and> decl_symbol d = Some symbol))
     \<or> (\<not> (kind node = ClassDeclaration \<and> node_name node \<noteq> None) \<and>
        kind node \<noteq> ModuleDeclaration \<and> kind node \<noteq> MethodDeclaration \<and>
        kind node \<noteq> FunctionDeclaration \<and> kind node \<noteq> VariableStatement \<and>
        (\<exists>arrowFunc. findDescendantArrowFunction node = Some arrowFunc \<and>
           getSymbolAtLocation checker (parent_name arrowFunc) = Some symbol)))"
  then have "serializeClass checker symbol = Inl e" "addDocEntry checker (Some symbol) = Inl e"
    by (simp_all add: serializeClass_def addDocEntry_def serializeSymbol_def)
  with a show "visit checker node = Inl e"
    by (subst visit_unfold) auto
next
  assume "isNodeExportedOrPublic node \<and>
    (kind node = ModuleDeclaration \<or>
     (kind node = ClassDeclaration \<and> node_name node \<noteq> None \<and>
      getSymbolAtLocation checker (node_name node) \<noteq> None)) \<and>
    (\<exists>c \<in> set (children node). \<exists>e. visit checker c = Inl e)"
  then show "\<exists>e'. visit checker node = Inl e'"
    using visit_children_fault by blast
next
  assume "\<exists>f \<in> set (getSourceFiles (createProgram fileNames options)).
       \<not> isDeclarationFile f \<and>
       (\<exists>n \<in> set (sf_children f). \<exists>e.
          visit (getTypeChecker (createProgram fileNames options)) n = Inl e)"
  then obtain f n e where f: "f \<in> set (getSourceFiles (createProgram fileNames options))"
    "\<not> isDeclarationFile f" and n: "n \<in> set (sf_children f)"
    "visit (getTypeChecker (createProgram fileNames options)) n = Inl e"
    by blast
  from visitSourceFile_fault [OF n] obtain e1
    where "visitSourceFile (getTypeChecker (createProgram fileNames options)) f = Inl e1" ..
  from generateDocumentation_fault
    [where createProgram = createProgram and fileNames = fileNames and options = options,
      OF f this]
  show "\<exists>e'. generateDocumentation createProgram fileNames options = Inl e'" .
qed

theorem serializeSymbol_fault_witness:
  "getTypeOfSymbolAtLocation strict_checker (symbolNamed ''orphan'' None)
     (valueDeclaration (symbolNamed ''orphan'' None)) = Inl CheckerError \<and>
   serializeSymbol strict_checker (symbolNamed ''orphan'' None) = Inl CheckerError \<and>
   serializeClass strict_checker (symbolNamed ''orphan'' None) = Inl CheckerError \<and>
   serializeSymbol strict_checker (symbolNamed ''add'' (Some 1)) =
     Inr (DocEntry ''add'' None (Some []) (Some ''() => void'') None None None None (Some []) None) \<and>
   orphan_file \<in> set (getSourceFiles (orphan_createProgram [''add.ts'', ''orphan.ts''] ())) \<and>
   \<not> isDeclarationFile orphan_file \<and>
   functionDeclaration 5 ModifierFlags_Export None \<in> set (sf_children orphan_file) \<and>
   isNodeExportedOrPublic (functionDeclaration 5 ModifierFlags_Export None) \<and>
   getSymbolAtLocation strict_checker (Some 7) = Some (symbolNamed ''orphan'' None) \<and>
   visit strict_checker (functionDeclaration 5 ModifierFlags_Export None) = Inl CheckerError \<and>
   generateDocumentation orphan_createProgram [''add.ts'', ''orphan.ts''] () = Inl CheckerError"
  using serializeSymbol_fault
    [where checker = strict_checker and symbol = "symbolNamed ''orphan'' None"
       and e = CheckerError and createProgram = orphan_createProgram
       and fileNames = "[''add.ts'', ''orphan.ts'']" and options = "()"
       and node = "functionDeclaration 5 ModifierFlags_Export None"]
    serializeSymbol_fault
    [where checker = strict_checker and symbol = "symbolNamed ''add'' (Some 1)"
       and ty = "Type ''() => void'' []", THEN conjunct2, THEN conjunct1]
  by (simp add: example_defs flag_defs serializeClass_def serializeSymbol_def addDocEntry_def
      generateDocumentation_def visitSourceFile_def pushAll_def displayPartsToString_def)

text \<open>
  Claim C7, as stated, fails: with a checker that answers a type lookup at an undefined
  location (the TypeScript checker answers with its error type, printed \<^verbatim>\<open>any\<close>),
  \<^verbatim>\<open>serializeSymbol\<close> returns a record for a symbol without a declaring location, and the
  extraction of the file that holds it returns normally.
\<close>

theorem serializeSymbol_undefined_location:
  "valueDeclaration (symbolNamed ''orphan'' None) = None \<and>
   serializeSymbol tolerant_checker (symbolNamed ''orphan'' None) =
     Inr (DocEntry ''orphan'' None (Some []) (Some ''any'') None None None None (Some []) None) \<and>
   generateDocumentation
     (\<lambda>fileNames options. \<lparr>getSourceFiles = [add_file, orphan_file],
                            getTypeChecker = tolerant_checker\<rparr>)
     [''add.ts'', ''orphan.ts''] () =
     Inr [DocEntry ''add'' (Some ''add.ts'') (Some []) (Some ''() => void'') None None None None
            (Some []) None,
          DocEntry ''orphan'' (Some ''orphan.ts'') (Some []) (Some ''any'') None None None None
            (Some []) None]"
  by (simp add: example_defs flag_defs serializeSymbol_def addDocEntry_def
      generateDocumentation_def visitSourceFile_def pushAll_def displayPartsToString_def)

section \<open>Variable statements\<close>

text \<open>
  Claim C8, as the code has it. For a variable statement that passes the gate, \<^verbatim>\<open>visit\<close>
  reads the \<^verbatim>\<open>symbol\<close> property of the first declaration of the declaration list. With
  an empty list this read is a \<^verbatim>\<open>TypeError\<close>: nothing guards it. With a first declaration
  that has no symbol, \<^verbatim>\<open>addDocEntry\<close> guards: nothing is appended and \<^verbatim>\<open>visit\<close> returns
  normally. With a symbol, the record of \<^verbatim>\<open>serializeSymbol\<close> is appended (or its fault is
  the fault of the call).
\<close>

theorem variable_statement:
  assumes "kind node = VariableStatement" and "isNodeExportedOrPublic node"
  shows "(declarations node = [] \<longrightarrow> visit checker node = Inl TypeError) \<and>
         (\<forall>d ds. declarations node = d # ds \<and> decl_symbol d = None
            \<longrightarrow> visit checker node = Inr []) \<and>
         (\<forall>d ds s. declarations node = d # ds \<and> decl_symbol d = Some s
            \<longrightarrow> visit checker node =
                  (case serializeSymbol checker s of
                     Inl e \<Rightarrow> Inl e
                   | Inr details \<Rightarrow> Inr [details]))"
proof -
  have "visit checker node =
          (case declarations node of
             [] \<Rightarrow> Inl TypeError
           | d # ds \<Rightarrow> addDocEntry checker (decl_symbol d))"
    using assms by (subst visit_unfold) simp
  then show ?thesis
    by (simp add: addDocEntry_def)
qed


theorem variable_statement_witness:
  "kind (variableStatement 30 []) = VariableStatement \<and>
   isNodeExportedOrPublic (variableStatement 30 []) \<and>
   visit add_checker (variableStatement 30 []) = Inl TypeError \<and>
   visit add_checker (variableStatement 30 [\<lparr>decl_symbol = None\<rparr>]) = Inr [] \<and>
   visit add_checker (variableStatement 30 [\<lparr>decl_symbol = Some (symbolNamed ''x'' (Some 1))\<rparr>]) =
     Inr [DocEntry ''x'' None (Some []) (Some ''(a: number, b: number) => number'') None None None
            None (Some []) None]"
  using variable_statement [of "variableStatement 30 []" add_checker]
    variable_statement [of "variableStatement 30 [\<lparr>decl_symbol = None\<rparr>]" add_checker]
    variable_statement [of "variableStatement 30 [\<lparr>decl_symbol = Some (symbolNamed ''x'' (Some 1))\<rparr>]" add_checker]
  by (simp add: example_defs flag_defs serializeSymbol_def displayPartsToString_def)

text \<open>
  Claim C8, as stated, fails: the two cases are not alike. For
  \<^verbatim>\<open>export const {a} = o\<close> the first declaration has no symbol and \<^verbatim>\<open>visit\<close> returns the
  empty sequence without a fault, while the statement with an empty declaration list
  ends in a \<^verbatim>\<open>TypeError\<close>.
\<close>

theorem variable_statement_guarded_symbol:
  "kind (variableStatement 30 [\<lparr>decl_symbol = None\<rparr>]) = VariableStatement \<and>
   isNodeExportedOrPublic (variableStatement 30 [\<lparr>decl_symbol = None\<rparr>]) \<and>
   decl_symbol (hd (declarations (variableStatement 30 [\<lparr>decl_symbol = None\<rparr>]))) = None \<and>
   visit blind_checker (variableStatement 30 [\<lparr>decl_symbol = None\<rparr>]) = Inr [] \<and>
   visit blind_checker (variableStatement 30 []) = Inl TypeError"
  by (simp add: example_defs flag_defs addDocEntry_def)

section \<open>A single exported function\<close>

text \<open>
  Claim C2, as the code has it. When the only source file that is not a declaration
  file has, as its first child, a function declaration that passes the gate, whose name
  the checker resolves to a symbol and whose type lookup returns, and no other child
  passes the gate, \<^verbatim>\<open>generateDocumentation\<close> yields exactly one record: its \<^verbatim>\<open>name\<close> is the
  symbol's name, its \<^verbatim>\<open>fileName\<close> the file's name, its \<^verbatim>\<open>documentation\<close> the flattened
  documentation comment, its \<^verbatim>\<open>type\<close> the printed form of the symbol's type and its
  \<^verbatim>\<open>jsDocs\<close> the symbol's tags; \<^verbatim>\<open>parameters\<close>, \<^verbatim>\<open>returnType\<close>, \<^verbatim>\<open>constructors\<close>, \<^verbatim>\<open>methods\<close>
  and \<^verbatim>\<open>doc_type\<close> are absent.
\<close>

theorem exported_function_entry:
  assumes files: "filter (\<lambda>f. \<not> isDeclarationFile f)
                    (getSourceFiles (createProgram fileNames options)) = [sourceFile]"
    and ch: "sf_children sourceFile = fn # rest"
    and rest: "\<forall>x \<in> set rest. \<not> isNodeExportedOrPublic x"
    and fn: "kind fn = FunctionDeclaration" "isNodeExportedOrPublic fn" "node_name fn = Some nm"
    and sym: "getSymbolAtLocation (getTypeChecker (createProgram fileNames options)) (Some nm) = Some s"
    and ty: "getTypeOfSymbolAtLocation (getTypeChecker (createProgram fileNames options)) s
               (valueDeclaration s) = Inr ty"
  shows "generateDocumentation createProgram fileNames options =
           Inr [DocEntry (getName s) (Some (sf_fileName sourceFile))
                  (Some (displayPartsToString (getDocumentationComment s)))
                  (Some (typeToString ty)) None None None None (Some (getJsDocTags s)) None]"
proof -
  let ?ck = "getTypeChecker (createProgram fileNames options)"
  let ?stamp = "\<lambda>node. (case visit ?ck node of
                              Inl e \<Rightarrow> Inl e
                            | Inr entries \<Rightarrow> Inr (map (set_fileName (sf_fileName sourceFile)) entries))"
  have v: "visit ?ck fn =
          Inr [DocEntry (getName s) None
                  (Some (displayPartsToString (getDocumentationComment s)))
                  (Some (typeToString ty)) None None None None (Some (getJsDocTags s)) None]"
    using fn sym ty by (subst visit_unfold) (simp add: addDocEntry_def serializeSymbol_def)
  have r: "pushAll (map ?stamp rest) = Inr []"
    using rest by (intro pushAll_all_empty) (auto simp: visit_not_exported)
  have "visitSourceFile ?ck sourceFile =
          Inr [DocEntry (getName s) (Some (sf_fileName sourceFile))
                  (Some (displayPartsToString (getDocumentationComment s)))
                  (Some (typeToString ty)) None None None None (Some (getJsDocTags s)) None]"
    by (simp add: visitSourceFile_def ch pushAll_Cons v r)
  then show ?thesis
    by (simp add: generateDocumentation_def Let_def files pushAll_Cons pushAll_Nil)
qed


theorem exported_function_entry_witness:
  "filter (\<lambda>f. \<not> isDeclarationFile f) (getSourceFiles (add_createProgram [''add.ts''] ())) = [add_file] \<and>
   sf_children add_file = functionDeclaration 1 ModifierFlags_Export None # [token EndOfFileToken 5 None] \<and>
   \<not> isNodeExportedOrPublic (token EndOfFileToken 5 None) \<and>
   kind (functionDeclaration 1 ModifierFlags_Export None) = FunctionDeclaration \<and>
   isNodeExportedOrPublic (functionDeclaration 1 ModifierFlags_Export None) \<and>
   node_name (functionDeclaration 1 ModifierFlags_Export None) = Some 3 \<and>
   getSymbolAtLocation add_checker (Some 3) = Some (symbolNamed ''add'' (Some 1)) \<and>
   generateDocumentation add_createProgram [''add.ts''] () =
     Inr [DocEntry ''add'' (Some ''add.ts'') (Some [])
            (Some ''(a: number, b: number) => number'') None None None None (Some []) None]"
  using exported_function_entry
    [where createProgram = add_createProgram and fileNames = "[''add.ts'']" and options = "()"
       and sourceFile = add_file and fn = "functionDeclaration 1 ModifierFlags_Export None"
       and rest = "[token EndOfFileToken 5 None]" and nm = 3
       and s = "symbolNamed ''add'' (Some 1)"
       and ty = "Type ''(a: number, b: number) => number'' []"]
  by (simp add: example_defs flag_defs displayPartsToString_def)

text \<open>
  Claim C2, as stated, fails: for \<^verbatim>\<open>add.ts\<close> the one record has no \<^verbatim>\<open>parameters\<close> and no
  \<^verbatim>\<open>returnType\<close> (only \<^verbatim>\<open>serializeSignature\<close> writes them, and \<^verbatim>\<open>visit\<close> applies it to the
  construct signatures of classes only).
\<close>

theorem add_has_no_parameters:
  "generateDocumentation add_createProgram [''add.ts''] () =
     Inr [DocEntry ''add'' (Some ''add.ts'') (Some [])
            (Some ''(a: number, b: number) => number'') None None None None (Some []) None] \<and>
   parameters (DocEntry ''add'' (Some ''add.ts'') (Some [])
            (Some ''(a: number, b: number) => number'') None None None None (Some []) None) = None \<and>
   returnType (DocEntry ''add'' (Some ''add.ts'') (Some [])
            (Some ''(a: number, b: number) => number'') None None None None (Some []) None)
     \<noteq> Some ''number''"
  by (simp add: example_defs flag_defs serializeSymbol_def addDocEntry_def
      generateDocumentation_def visitSourceFile_def pushAll_def displayPartsToString_def)

section \<open>Records without a \<^verbatim>\<open>doc_type\<close>\<close>

text \<open>
  Claim C10. When no entry has a \<^verbatim>\<open>doc_type\<close>, \<^verbatim>\<open>documentationToMarkdown\<close> returns the
  empty string; and no entry of a sequence that \<^verbatim>\<open>generateDocumentation\<close> returns has a
  \<^verbatim>\<open>doc_type\<close>, so every such sequence renders as the empty string.
\<close>

theorem no_doc_type_renders_empty:
  "((\<forall>e \<in> set entries. doc_type e = None) \<longrightarrow> documentationToMarkdown entries = []) \<and>
   (generateDocumentation createProgram fileNames options = Inr entries \<longrightarrow>
      (\<forall>e \<in> set entries. doc_type e = None) \<and> documentationToMarkdown entries = [])"
proof (intro conjI impI)
  assume "\<forall>e \<in> set entries. doc_type e = None"
  then show "documentationToMarkdown entries = []"
    by (rule documentationToMarkdown_no_doc_type)
next
  assume g: "generateDocumentation createProgram fileNames options = Inr entries"
  show n: "\<forall>e \<in> set entries. doc_type e = None"
  proof
    fix e
    assume "e \<in> set entries"
    with g show "doc_type e = None"
      by (rule generateDocumentation_doc_type)
  qed
  then show "documentationToMarkdown entries = []"
    by (rule documentationToMarkdown_no_doc_type)
qed


theorem no_doc_type_renders_empty_witness:
  "doc_type untagged_entry = None \<and>
   documentationToMarkdown [untagged_entry] = [] \<and>
   generateDocumentation add_createProgram [''add.ts''] () =
     Inr [DocEntry ''add'' (Some ''add.ts'') (Some [])
            (Some ''(a: number, b: number) => number'') None None None None (Some []) None] \<and>
   documentationToMarkdown
     [DocEntry ''add'' (Some ''add.ts'') (Some [])
        (Some ''(a: number, b: number) => number'') None None None None (Some []) None] = []"
  using no_doc_type_renders_empty [where entries = "[untagged_entry]", THEN conjunct1]
    no_doc_type_renders_empty
    [where createProgram = add_createProgram and fileNames = "[''add.ts'']" and options = "()"
       and entries = "[DocEntry ''add'' (Some ''add.ts'') (Some [])
            (Some ''(a: number, b: number) => number'') None None None None (Some []) None]"]
  by (simp add: example_defs flag_defs serializeSymbol_def addDocEntry_def
      generateDocumentation_def visitSourceFile_def pushAll_def displayPartsToString_def)

section \<open>The sections of the document\<close>

text \<open>
  Claim C1. The three groups are the entries whose \<^verbatim>\<open>doc_type\<close> is \<^verbatim>\<open>function\<close>, \<^verbatim>\<open>class\<close> and
  \<^verbatim>\<open>const\<close>, each in the order of the input, and no entry is in two of them. The document
  is, in this order: the heading \<^verbatim>\<open># Functions\<close> with the rendering of the function group,
  present exactly when that group is not empty; the heading \<^verbatim>\<open># Constants\<close> with the
  rendering of the constant group, present exactly when that group is not empty; and
  the class sections, one per entry of the class group, joined by line breaks.
\<close>

theorem documentationToMarkdown_sections:
  "set (filter (\<lambda>e. doc_type e = Some ''function'') entries) \<inter>
     set (filter (\<lambda>e. doc_type e = Some ''class'') entries) = {} \<and>
   set (filter (\<lambda>e. doc_type e = Some ''function'') entries) \<inter>
     set (filter (\<lambda>e. doc_type e = Some ''const'') entries) = {} \<and>
   set (filter (\<lambda>e. doc_type e = Some ''class'') entries) \<inter>
     set (filter (\<lambda>e. doc_type e = Some ''const'') entries) = {} \<and>
   documentationToMarkdown entries =
     (if filter (\<lambda>e. doc_type e = Some ''function'') entries = [] then []
      else ''# Functions\<newline>\<newline>'' @
           toMarkdown (filter (\<lambda>e. doc_type e = Some ''function'') entries) @ ''\<newline>\<newline>'') @
     (if filter (\<lambda>e. doc_type e = Some ''const'') entries = [] then []
      else ''# Constants\<newline>\<newline>'' @
           toMarkdown (filter (\<lambda>e. doc_type e = Some ''const'') entries) @ ''\<newline>\<newline>'') @
     join ''\<newline>'' (map classesToMarkdown (filter (\<lambda>e. doc_type e = Some ''class'') entries))"
proof (intro conjI)
  show "documentationToMarkdown entries =
     (if filter (\<lambda>e. doc_type e = Some ''function'') entries = [] then []
      else ''# Functions\<newline>\<newline>'' @
           toMarkdown (filter (\<lambda>e. doc_type e = Some ''function'') entries) @ ''\<newline>\<newline>'') @
     (if filter (\<lambda>e. doc_type e = Some ''const'') entries = [] then []
      else ''# Constants\<newline>\<newline>'' @
           toMarkdown (filter (\<lambda>e. doc_type e = Some ''const'') entries) @ ''\<newline>\<newline>'') @
     join ''\<newline>'' (map classesToMarkdown (filter (\<lambda>e. doc_type e = Some ''class'') entries))"
    by (simp add: documentationToMarkdown_def Let_def)
qed auto

theorem documentationToMarkdown_sections_witness:
  "documentationToMarkdown [counter_entry, add_entry, untagged_entry, pi_entry] =
     ''# Functions\<newline>\<newline>'' @ toMarkdown [add_entry] @ ''\<newline>\<newline>'' @
     ''# Constants\<newline>\<newline>'' @ toMarkdown [pi_entry] @ ''\<newline>\<newline>'' @
     classesToMarkdown counter_entry \<and>
   documentationToMarkdown [counter_entry, untagged_entry] = classesToMarkdown counter_entry \<and>
   classesToMarkdown counter_entry = ''# Counter\<newline>\<newline>Counts.\<newline>\<newline>## inc\<newline>\<newline>| Name | Type |\<newline>| ---------- | ---------- |\<newline>| `inc` | `() => void` |\<newline>\<newline>''"
  using documentationToMarkdown_sections [of "[counter_entry, add_entry, untagged_entry, pi_entry]"]
    documentationToMarkdown_sections [of "[counter_entry, untagged_entry]"]
  by (simp add: example_defs renderer_defs)

section \<open>The subsection of an entry\<close>

text \<open>
  Claim C9. The rendering of an entry of a function or constant group is these lines,
  joined by line breaks: the heading \<^verbatim>\<open>## name\<close>; the documentation, exactly when it is
  present and not empty; the two header lines of the table and its one data row, with
  the name and the type (the empty string for an absent type) between backticks; and,
  exactly when the entry has a non-empty parameter list, the line \<^verbatim>\<open>Parameters:\<close> and
  one bullet line per parameter with its name between backticks and its documentation
  (the empty string when absent). A group is rendered as its entries' subsections,
  joined by line breaks.
\<close>

theorem rowToMarkdown_subsection:
  "rowToMarkdown (toRow entry) =
     join ''\<newline>''
       ([''## '' @ name entry @ ''\<newline>''] @
        (if nullish (documentation entry) [] = [] then []
         else [nullish (documentation entry) [] @ ''\<newline>'']) @
        [''| Name | Type |'',
         ''| ---------- | ---------- |'',
         ''| `'' @ name entry @ ''` | `'' @ nullish (type entry) [] @ ''` |\<newline>''] @
        (if nullish (parameters entry) [] = [] then []
         else ''Parameters:'' #
              map (\<lambda>p. ''* `'' @ name p @ ''`: '' @ nullish (documentation p) [])
                (nullish (parameters entry) []))) \<and>
   toMarkdown entries = join ''\<newline>'' (map (\<lambda>entry. rowToMarkdown (toRow entry)) entries)"
  by (simp add: rowToMarkdown_def toRow_def toMarkdown_def Let_def comp_def)


theorem rowToMarkdown_subsection_witness:
  "rowToMarkdown (toRow add_entry) = ''## add\<newline>\<newline>Adds two numbers.\<newline>\<newline>| Name | Type |\<newline>| ---------- | ---------- |\<newline>| `add` | `(a: number, b: number) => number` |\<newline>\<newline>Parameters:\<newline>* `a`: the first\<newline>* `b`: '' \<and>
   rowToMarkdown (toRow pi_entry) = ''## PI\<newline>\<newline>| Name | Type |\<newline>| ---------- | ---------- |\<newline>| `PI` | `` |\<newline>'' \<and>
   toMarkdown [add_entry, pi_entry] =
     rowToMarkdown (toRow add_entry) @ ''\<newline>'' @ rowToMarkdown (toRow pi_entry)"
  using rowToMarkdown_subsection [of add_entry "[add_entry, pi_entry]"]
    rowToMarkdown_subsection [of pi_entry "[]"]
  by (simp add: example_defs nullish_def)

section \<open>Namespaces\<close>

text \<open>
  Claim C5 at \<^verbatim>\<open>ns.ts\<close>. \<^verbatim>\<open>visit\<close> on each of the two exported functions alone yields its
  record. \<^verbatim>\<open>visit\<close> on the exported namespace takes the module branch and visits the
  children of the module declaration: the modifier, the name and the body block. The
  block carries no modifier, so it stops at the gate, and the functions inside it are
  never visited: the extraction of the file yields no record.
\<close>

theorem namespace_not_extracted:
  "visit namespace_checker (functionDeclaration 44 ModifierFlags_Export None) =
     Inr [DocEntry ''f'' None (Some []) (Some ''() => void'') None None None None (Some []) None] \<and>
   visit namespace_checker (functionDeclaration 48 ModifierFlags_Export None) =
     Inr [DocEntry ''g'' None (Some []) (Some ''() => void'') None None None None (Some []) None] \<and>
   visit namespace_checker namespace_N = Inr [] \<and>
   generateDocumentation namespace_createProgram [''ns.ts''] () = Inr []"
  by (simp add: example_defs flag_defs extractor_defs)

end
